theory Spec2Isabelle
  imports Main "HOL-Library.Word"
begin

unbundle bit_operations_syntax

section \<open>Backlight interface selection (drivers/acpi/video\_detect.c)\<close>

subsection \<open>Data model\<close>

text \<open>
  Modelled from the spec: the declaration of \<^verbatim>\<open>enum acpi_backlight_type\<close> lives in
  \<^verbatim>\<open>acpi/video.h\<close>, which is not among the sources. The spec gives the closed
  enumeration Undefined, Vendor, Video, Native, VendorEmbeddedController, None; the
  constructors carry the identifiers that video\_detect.c uses for them.
\<close>

datatype acpi_backlight_type =
    acpi_backlight_undef
  | acpi_backlight_none
  | acpi_backlight_video
  | acpi_backlight_vendor
  | acpi_backlight_native
  | acpi_backlight_nvidia_wmi_ec

text \<open>The identity fields that the quirk table tests.\<close>

datatype dmi_field =
    DMI_SYS_VENDOR
  | DMI_PRODUCT_NAME
  | DMI_PRODUCT_VERSION
  | DMI_BOARD_NAME
  | DMI_BIOS_VERSION

text \<open>
  One field predicate of a quirk rule. \<^verbatim>\<open>DMI_MATCH(a, b)\<close> and
  \<^verbatim>\<open>DMI_EXACT_MATCH(a, b)\<close> are the two initialisers the table uses; the second one
  sets \<open>exact_match\<close>.
\<close>

record dmi_strmatch =
  slot :: dmi_field
  substr :: string
  exact_match :: bool

definition DMI_MATCH :: "dmi_field \<Rightarrow> string \<Rightarrow> dmi_strmatch" where
  "DMI_MATCH a b = \<lparr>slot = a, substr = b, exact_match = False\<rparr>"

definition DMI_EXACT_MATCH :: "dmi_field \<Rightarrow> string \<Rightarrow> dmi_strmatch" where
  "DMI_EXACT_MATCH a b = \<lparr>slot = a, substr = b, exact_match = True\<rparr>"

text \<open>
  One node that the namespace walk visits, as \<open>find_video\<close> sees it: whether
  \<^verbatim>\<open>acpi_fetch_acpi_dev\<close> yields a device, the return value of
  \<^verbatim>\<open>acpi_match_device_ids\<close> against the video HID (0 on a match), whether
  \<^verbatim>\<open>acpi_get_pci_dev\<close> finds a PCI device behind the handle, and the capability bits
  that \<^verbatim>\<open>acpi_is_video_device\<close> reports.
\<close>

record acpi_node =
  acpi_fetch_acpi_dev :: bool
  acpi_match_device_ids :: int
  acpi_get_pci_dev :: bool
  acpi_is_video_device :: "64 word"

text \<open>
  Everything the engine reads from its collaborators. The two macros
  \<^verbatim>\<open>ACPI_VIDEO_BACKLIGHT\<close> and \<^verbatim>\<open>WMI_BRIGHTNESS_SOURCE_EC\<close> and the build option
  \<^verbatim>\<open>CONFIG_X86\<close> are defined outside the sources at hand and are parameters here.
  \<open>wmi_evaluate_method\<close> is \<open>None\<close> when the firmware call reports
  \<^verbatim>\<open>ACPI_FAILURE(status)\<close> and \<open>Some r\<close> when it succeeds leaving \<^verbatim>\<open>args.ret = r\<close>.
  \<open>pci_get_device_trident\<close> tells whether
  \<^verbatim>\<open>pci_get_device(PCI_VENDOR_ID_TRIDENT, 0x2100, NULL)\<close> returns a device.
  \<open>dmi_walk_stops r\<close> tells whether the table walk of the DMI scanner, which is outside
  the sources at hand, ends after a callback that returned \<open>r\<close>.
\<close>

record platform =
  acpi_video_backlight_string :: string
  dmi_ident :: "dmi_field \<Rightarrow> string option"
  dmi_walk_stops :: "int \<Rightarrow> bool"
  pci_get_device_trident :: bool
  acpi_namespace :: "acpi_node list"
  CONFIG_X86 :: bool
  wmi_evaluate_method :: "32 word option"
  WMI_BRIGHTNESS_SOURCE_EC :: "32 word"
  ACPI_VIDEO_BACKLIGHT :: "64 word"
  acpi_osi_is_win8 :: bool
  acpi_dev_found :: "string \<Rightarrow> bool"

text \<open>
  The calls whose number matters: the four steps of the one-time block and the
  notification sent to the generic-backlight consumer.
\<close>

datatype call =
    Parse_cmdline
  | Dmi_check_system
  | Acpi_walk_namespace
  | Nvidia_wmi_ec_supported
  | Unregister_backlight

text \<open>
  The file-scope variables \<open>acpi_backlight_cmdline\<close> and \<open>acpi_backlight_dmi\<close>, the
  function-local statics of \<^verbatim>\<open>__acpi_video_get_backlight_type\<close>, and the log of calls.
\<close>

record state =
  acpi_backlight_cmdline :: acpi_backlight_type
  acpi_backlight_dmi :: acpi_backlight_type
  nvidia_wmi_ec_present :: bool
  native_available :: bool
  init_done :: bool
  video_caps :: "64 word"
  calls :: "call list"

definition init_state :: state where
  "init_state =
     \<lparr>acpi_backlight_cmdline = acpi_backlight_undef,
      acpi_backlight_dmi = acpi_backlight_undef,
      nvidia_wmi_ec_present = False,
      native_available = False,
      init_done = False,
      video_caps = 0,
      calls = []\<rparr>"

subsection \<open>Command line\<close>

definition acpi_video_parse_cmdline :: "platform \<Rightarrow> state \<Rightarrow> state" where
  "acpi_video_parse_cmdline env s =
     (let str = acpi_video_backlight_string env;
          s1 = (if ''vendor'' = str
                then s\<lparr>acpi_backlight_cmdline := acpi_backlight_vendor\<rparr> else s);
          s2 = (if ''video'' = str
                then s1\<lparr>acpi_backlight_cmdline := acpi_backlight_video\<rparr> else s1);
          s3 = (if ''native'' = str
                then s2\<lparr>acpi_backlight_cmdline := acpi_backlight_native\<rparr> else s2);
          s4 = (if ''nvidia_wmi_ec'' = str
                then s3\<lparr>acpi_backlight_cmdline := acpi_backlight_nvidia_wmi_ec\<rparr> else s3);
          s5 = (if ''none'' = str
                then s4\<lparr>acpi_backlight_cmdline := acpi_backlight_none\<rparr> else s4)
      in s5)"

subsection \<open>Capability scan\<close>

text \<open>\<open>find_video\<close> always returns \<^verbatim>\<open>AE_OK\<close>; what it computes is the new \<^verbatim>\<open>*cap\<close>.\<close>

definition find_video :: "acpi_node \<Rightarrow> 64 word \<Rightarrow> 64 word" where
  "find_video node cap =
     (if acpi_fetch_acpi_dev node \<and> acpi_match_device_ids node = 0
      then (if \<not> acpi_get_pci_dev node then cap
            else cap OR acpi_is_video_device node)
      else cap)"

text \<open>
  Modelled from the spec: \<^verbatim>\<open>acpi_walk_namespace\<close> is not among the sources. The spec has
  the walk visit the whole namespace with no early exit, the callback being applied to
  each visited node in turn; a walk that fails as a whole visits nothing.
\<close>

fun acpi_walk_namespace :: "acpi_node list \<Rightarrow> 64 word \<Rightarrow> 64 word" where
  "acpi_walk_namespace [] cap = cap"
| "acpi_walk_namespace (node # nodes) cap = acpi_walk_namespace nodes (find_video node cap)"

subsection \<open>Vendor embedded-controller probe\<close>

definition nvidia_wmi_ec_supported :: "platform \<Rightarrow> bool" where
  "nvidia_wmi_ec_supported env =
     (if CONFIG_X86 env
      then (case wmi_evaluate_method env of
              None \<Rightarrow> False
            | Some ret \<Rightarrow> ret = WMI_BRIGHTNESS_SOURCE_EC env)
      else False)"

subsection \<open>Quirk callbacks\<close>

text \<open>
  A callback stores at most one value to \<open>acpi_backlight_dmi\<close> and returns an
  \<^verbatim>\<open>int\<close>. It is modelled by the pair of the value stored (\<open>None\<close> when nothing is
  stored) and the value returned. The rule pointer the C callbacks receive is unused by
  all four and is left out.
\<close>

type_synonym dmi_callback = "platform \<Rightarrow> acpi_backlight_type option \<times> int"

definition video_detect_force_vendor :: dmi_callback where
  "video_detect_force_vendor env = (Some acpi_backlight_vendor, 0)"

definition video_detect_force_video :: dmi_callback where
  "video_detect_force_video env = (Some acpi_backlight_video, 0)"

definition video_detect_force_native :: dmi_callback where
  "video_detect_force_native env = (Some acpi_backlight_native, 0)"

definition video_detect_portege_r100 :: dmi_callback where
  "video_detect_portege_r100 env =
     (if pci_get_device_trident env then Some acpi_backlight_vendor else None, 0)"

record dmi_system_id =
  callback :: dmi_callback
  ident :: "string option"
  matches :: "dmi_strmatch list"

subsection \<open>The quirk table\<close>

definition video_detect_dmi_table :: "dmi_system_id list" where
  "video_detect_dmi_table = [
   \<lparr>callback = video_detect_force_vendor, ident = None, matches =
      [DMI_MATCH DMI_SYS_VENDOR ''SAMSUNG ELECTRONICS CO., LTD.'',
       DMI_MATCH DMI_PRODUCT_NAME ''X360'',
       DMI_MATCH DMI_BOARD_NAME ''X360'']\<rparr>,
   \<lparr>callback = video_detect_force_vendor, ident = None, matches =
      [DMI_MATCH DMI_SYS_VENDOR ''ASUSTeK Computer Inc.'',
       DMI_MATCH DMI_PRODUCT_NAME ''UL30VT'']\<rparr>,
   \<lparr>callback = video_detect_force_vendor, ident = None, matches =
      [DMI_MATCH DMI_SYS_VENDOR ''ASUSTeK Computer Inc.'',
       DMI_MATCH DMI_PRODUCT_NAME ''UL30A'']\<rparr>,
   \<lparr>callback = video_detect_force_vendor, ident = None, matches =
      [DMI_MATCH DMI_SYS_VENDOR ''GIGABYTE'',
       DMI_MATCH DMI_PRODUCT_NAME ''GB-BXBT-2807'']\<rparr>,
   \<lparr>callback = video_detect_force_vendor, ident = None, matches =
      [DMI_MATCH DMI_SYS_VENDOR ''Sony Corporation'',
       DMI_MATCH DMI_PRODUCT_NAME ''VPCEH3U1E'']\<rparr>,
   \<lparr>callback = video_detect_force_native, ident = None, matches =
      [DMI_MATCH DMI_SYS_VENDOR ''Dell Inc.'',
       DMI_MATCH DMI_PRODUCT_NAME ''Vostro 15 3535'']\<rparr>,
   \<lparr>callback = video_detect_portege_r100, ident = None, matches =
      [DMI_MATCH DMI_SYS_VENDOR ''TOSHIBA'',
       DMI_MATCH DMI_PRODUCT_NAME ''Portable PC'',
       DMI_MATCH DMI_PRODUCT_VERSION ''Version 1.0'',
       DMI_MATCH DMI_BOARD_NAME ''Portable PC'']\<rparr>,
   \<lparr>callback = video_detect_force_video, ident = None, matches =
      [DMI_MATCH DMI_SYS_VENDOR ''Apple Inc.'',
       DMI_MATCH DMI_PRODUCT_NAME ''iMac14,1'']\<rparr>,
   \<lparr>callback = video_detect_force_video, ident = None, matches =
      [DMI_MATCH DMI_SYS_VENDOR ''Apple Inc.'',
       DMI_MATCH DMI_PRODUCT_NAME ''iMac14,2'']\<rparr>,
   \<lparr>callback = video_detect_force_video, ident = None, matches =
      [DMI_MATCH DMI_SYS_VENDOR ''LENOVO'',
       DMI_MATCH DMI_PRODUCT_VERSION ''ThinkPad W530'']\<rparr>,
   \<lparr>callback = video_detect_force_video, ident = None, matches =
      [DMI_MATCH DMI_SYS_VENDOR ''LENOVO'',
       DMI_MATCH DMI_PRODUCT_VERSION ''ThinkPad T420'']\<rparr>,
   \<lparr>callback = video_detect_force_video, ident = None, matches =
      [DMI_MATCH DMI_SYS_VENDOR ''LENOVO'',
       DMI_MATCH DMI_PRODUCT_VERSION ''ThinkPad T520'']\<rparr>,
   \<lparr>callback = video_detect_force_video, ident = None, matches =
      [DMI_MATCH DMI_SYS_VENDOR ''LENOVO'',
       DMI_MATCH DMI_PRODUCT_VERSION ''ThinkPad X201s'']\<rparr>,
   \<lparr>callback = video_detect_force_video, ident = None, matches =
      [DMI_MATCH DMI_SYS_VENDOR ''LENOVO'',
       DMI_MATCH DMI_PRODUCT_VERSION ''ThinkPad X201T'']\<rparr>,
   \<lparr>callback = video_detect_force_video, ident = None, matches =
      [DMI_MATCH DMI_SYS_VENDOR ''Hewlett-Packard'',
       DMI_MATCH DMI_PRODUCT_NAME ''HP ENVY 15 Notebook PC'']\<rparr>,
   \<lparr>callback = video_detect_force_video, ident = None, matches =
      [DMI_MATCH DMI_SYS_VENDOR ''SAMSUNG ELECTRONICS CO., LTD.'',
       DMI_MATCH DMI_PRODUCT_NAME ''870Z5E/880Z5E/680Z5E'']\<rparr>,
   \<lparr>callback = video_detect_force_video, ident = None, matches =
      [DMI_MATCH DMI_SYS_VENDOR ''SAMSUNG ELECTRONICS CO., LTD.'',
       DMI_MATCH DMI_PRODUCT_NAME ''370R4E/370R4V/370R5E/3570RE/370R5V'']\<rparr>,
   \<lparr>callback = video_detect_force_video, ident = None, matches =
      [DMI_MATCH DMI_SYS_VENDOR ''SAMSUNG ELECTRONICS CO., LTD.'',
       DMI_MATCH DMI_PRODUCT_NAME ''3570R/370R/470R/450R/510R/4450RV'']\<rparr>,
   \<lparr>callback = video_detect_force_video, ident = None, matches =
      [DMI_MATCH DMI_SYS_VENDOR ''SAMSUNG ELECTRONICS CO., LTD.'',
       DMI_MATCH DMI_PRODUCT_NAME ''670Z5E'']\<rparr>,
   \<lparr>callback = video_detect_force_video, ident = None, matches =
      [DMI_MATCH DMI_SYS_VENDOR ''SAMSUNG ELECTRONICS CO., LTD.'',
       DMI_MATCH DMI_PRODUCT_NAME ''730U3E/740U3E'']\<rparr>,
   \<lparr>callback = video_detect_force_video, ident = None, matches =
      [DMI_MATCH DMI_SYS_VENDOR ''SAMSUNG ELECTRONICS CO., LTD.'',
       DMI_MATCH DMI_PRODUCT_NAME ''900X3C/900X3D/900X3E/900X4C/900X4D'']\<rparr>,
   \<lparr>callback = video_detect_force_video, ident = None, matches =
      [DMI_MATCH DMI_SYS_VENDOR ''Dell Inc.'',
       DMI_MATCH DMI_PRODUCT_NAME ''XPS L421X'']\<rparr>,
   \<lparr>callback = video_detect_force_video, ident = None, matches =
      [DMI_MATCH DMI_SYS_VENDOR ''Dell Inc.'',
       DMI_MATCH DMI_PRODUCT_NAME ''XPS L521X'']\<rparr>,
   \<lparr>callback = video_detect_force_video, ident = None, matches =
      [DMI_MATCH DMI_SYS_VENDOR ''SAMSUNG ELECTRONICS CO., LTD.'',
       DMI_MATCH DMI_PRODUCT_NAME ''530U4E/540U4E'']\<rparr>,
   \<lparr>callback = video_detect_force_video, ident = None, matches =
      [DMI_MATCH DMI_SYS_VENDOR ''Hewlett-Packard'',
       DMI_MATCH DMI_PRODUCT_NAME ''HP 635 Notebook PC'']\<rparr>,
   \<lparr>callback = video_detect_force_native, ident = None, matches =
      [DMI_MATCH DMI_SYS_VENDOR ''LENOVO'',
       DMI_MATCH DMI_BOARD_NAME ''Lenovo IdeaPad S405'']\<rparr>,
   \<lparr>callback = video_detect_force_native, ident = None, matches =
      [DMI_MATCH DMI_SYS_VENDOR ''LENOVO'',
       DMI_MATCH DMI_PRODUCT_VERSION ''IdeaPad Z470'']\<rparr>,
   \<lparr>callback = video_detect_force_native, ident = None, matches =
      [DMI_MATCH DMI_SYS_VENDOR ''LENOVO'',
       DMI_MATCH DMI_PRODUCT_NAME ''102434U'']\<rparr>,
   \<lparr>callback = video_detect_force_native, ident = None, matches =
      [DMI_MATCH DMI_SYS_VENDOR ''LENOVO'',
       DMI_MATCH DMI_PRODUCT_NAME ''81FS'']\<rparr>,
   \<lparr>callback = video_detect_force_native, ident = None, matches =
      [DMI_MATCH DMI_SYS_VENDOR ''LENOVO'',
       DMI_MATCH DMI_PRODUCT_NAME ''82BK'']\<rparr>,
   \<lparr>callback = video_detect_force_native, ident = None, matches =
      [DMI_MATCH DMI_SYS_VENDOR ''LENOVO'',
       DMI_MATCH DMI_PRODUCT_NAME ''3371'']\<rparr>,
   \<lparr>callback = video_detect_force_native, ident = None, matches =
      [DMI_MATCH DMI_SYS_VENDOR ''Apple Inc.'',
       DMI_MATCH DMI_PRODUCT_NAME ''iMac11,3'']\<rparr>,
   \<lparr>callback = video_detect_force_native, ident = None, matches =
      [DMI_MATCH DMI_SYS_VENDOR ''Apple Inc.'',
       DMI_MATCH DMI_PRODUCT_NAME ''iMac12,1'']\<rparr>,
   \<lparr>callback = video_detect_force_native, ident = None, matches =
      [DMI_MATCH DMI_SYS_VENDOR ''Apple Inc.'',
       DMI_MATCH DMI_PRODUCT_NAME ''iMac12,2'']\<rparr>,
   \<lparr>callback = video_detect_force_native, ident = None, matches =
      [DMI_MATCH DMI_SYS_VENDOR ''Apple Inc.'',
       DMI_MATCH DMI_PRODUCT_NAME ''MacBookPro12,1'']\<rparr>,
   \<lparr>callback = video_detect_force_native, ident = None, matches =
      [DMI_MATCH DMI_SYS_VENDOR ''Dell Inc.'',
       DMI_MATCH DMI_PRODUCT_NAME ''Inspiron N4010'']\<rparr>,
   \<lparr>callback = video_detect_force_native, ident = None, matches =
      [DMI_MATCH DMI_SYS_VENDOR ''Dell Inc.'',
       DMI_MATCH DMI_PRODUCT_NAME ''Vostro V131'']\<rparr>,
   \<lparr>callback = video_detect_force_native, ident = None, matches =
      [DMI_MATCH DMI_SYS_VENDOR ''Dell Inc.'',
       DMI_MATCH DMI_PRODUCT_NAME ''Dell System XPS L702X'']\<rparr>,
   \<lparr>callback = video_detect_force_native, ident = None, matches =
      [DMI_MATCH DMI_SYS_VENDOR ''Dell Inc.'',
       DMI_MATCH DMI_PRODUCT_NAME ''Precision 7510'']\<rparr>,
   \<lparr>callback = video_detect_force_native, ident = None, matches =
      [DMI_MATCH DMI_SYS_VENDOR ''Dell Inc.'',
       DMI_MATCH DMI_PRODUCT_NAME ''Studio 1569'']\<rparr>,
   \<lparr>callback = video_detect_force_native, ident = None, matches =
      [DMI_MATCH DMI_SYS_VENDOR ''Acer'',
       DMI_MATCH DMI_PRODUCT_NAME ''Aspire 3830TG'']\<rparr>,
   \<lparr>callback = video_detect_force_native, ident = None, matches =
      [DMI_MATCH DMI_SYS_VENDOR ''Acer'',
       DMI_MATCH DMI_PRODUCT_NAME ''Aspire 5738'',
       DMI_MATCH DMI_BOARD_NAME ''JV50'']\<rparr>,
   \<lparr>callback = video_detect_force_native, ident = None, matches =
      [DMI_MATCH DMI_SYS_VENDOR ''Acer'',
       DMI_MATCH DMI_PRODUCT_NAME ''TravelMate 5735Z'',
       DMI_MATCH DMI_BOARD_NAME ''BA51_MV'']\<rparr>,
   \<lparr>callback = video_detect_force_native, ident = None, matches =
      [DMI_MATCH DMI_SYS_VENDOR ''ASUSTeK COMPUTER INC.'',
       DMI_MATCH DMI_PRODUCT_NAME ''GA401'']\<rparr>,
   \<lparr>callback = video_detect_force_native, ident = None, matches =
      [DMI_MATCH DMI_SYS_VENDOR ''ASUSTeK COMPUTER INC.'',
       DMI_MATCH DMI_PRODUCT_NAME ''GA502'']\<rparr>,
   \<lparr>callback = video_detect_force_native, ident = None, matches =
      [DMI_MATCH DMI_SYS_VENDOR ''ASUSTeK COMPUTER INC.'',
       DMI_MATCH DMI_PRODUCT_NAME ''GA503'']\<rparr>,
   \<lparr>callback = video_detect_force_native, ident = Some ''Clevo NL5xRU'', matches =
      [DMI_MATCH DMI_BOARD_NAME ''NL5xRU'']\<rparr>,
   \<lparr>callback = video_detect_force_native, ident = Some ''Clevo NL5xRU'', matches =
      [DMI_MATCH DMI_SYS_VENDOR ''TUXEDO'',
       DMI_MATCH DMI_BOARD_NAME ''AURA1501'']\<rparr>,
   \<lparr>callback = video_detect_force_native, ident = Some ''Clevo NL5xRU'', matches =
      [DMI_MATCH DMI_SYS_VENDOR ''TUXEDO'',
       DMI_MATCH DMI_BOARD_NAME ''EDUBOOK1502'']\<rparr>,
   \<lparr>callback = video_detect_force_native, ident = Some ''Clevo NL5xNU'', matches =
      [DMI_MATCH DMI_BOARD_NAME ''NL5xNU'']\<rparr>,
   \<lparr>callback = video_detect_force_native, ident = Some ''TongFang PF5PU1G'', matches =
      [DMI_MATCH DMI_BOARD_NAME ''PF5PU1G'']\<rparr>,
   \<lparr>callback = video_detect_force_native, ident = Some ''TongFang PF4NU1F'', matches =
      [DMI_MATCH DMI_BOARD_NAME ''PF4NU1F'']\<rparr>,
   \<lparr>callback = video_detect_force_native, ident = Some ''TongFang PF4NU1F'', matches =
      [DMI_MATCH DMI_SYS_VENDOR ''TUXEDO'',
       DMI_MATCH DMI_BOARD_NAME ''PULSE1401'']\<rparr>,
   \<lparr>callback = video_detect_force_native, ident = Some ''TongFang PF5NU1G'', matches =
      [DMI_MATCH DMI_BOARD_NAME ''PF5NU1G'']\<rparr>,
   \<lparr>callback = video_detect_force_native, ident = Some ''TongFang PF5NU1G'', matches =
      [DMI_MATCH DMI_SYS_VENDOR ''TUXEDO'',
       DMI_MATCH DMI_BOARD_NAME ''PULSE1501'']\<rparr>,
   \<lparr>callback = video_detect_force_native, ident = Some ''TongFang PF5LUXG'', matches =
      [DMI_MATCH DMI_BOARD_NAME ''PF5LUXG'']\<rparr>,
   \<lparr>callback = video_detect_force_vendor, ident = None, matches =
      [DMI_EXACT_MATCH DMI_SYS_VENDOR ''Intel Corporation'',
       DMI_EXACT_MATCH DMI_PRODUCT_NAME ''CHERRYVIEW D1 PLATFORM'',
       DMI_EXACT_MATCH DMI_PRODUCT_VERSION ''YETI-11'']\<rparr>,
   \<lparr>callback = video_detect_force_vendor, ident = None, matches =
      [DMI_MATCH DMI_SYS_VENDOR ''Intel Corp.'',
       DMI_MATCH DMI_PRODUCT_NAME ''VALLEYVIEW C0 PLATFORM'',
       DMI_MATCH DMI_BOARD_NAME ''BYT-T FFD8'',
       DMI_MATCH DMI_BIOS_VERSION ''BLADE_21'']\<rparr>,
   \<lparr>callback = video_detect_force_vendor, ident = None, matches =
      [DMI_MATCH DMI_SYS_VENDOR ''Intel Corporation'',
       DMI_MATCH DMI_PRODUCT_NAME ''CHERRYVIEW D1 PLATFORM'',
       DMI_MATCH DMI_PRODUCT_VERSION ''Blade3-10A-001'']\<rparr>,
   \<lparr>callback = video_detect_force_vendor, ident = None, matches =
      [DMI_MATCH DMI_SYS_VENDOR ''Xiaomi Inc'',
       DMI_MATCH DMI_PRODUCT_NAME ''Mipad2'']\<rparr>   ]"

subsection \<open>Matching the table against the platform identity\<close>

text \<open>
  Modelled from the spec: the string tests behind a field predicate are not among the
  sources. The spec has two kinds of predicate, Exact and PrefixOrSubstring: the pattern
  equals the field, or it occurs in the field as a contiguous run of characters (at the
  start or further on). \<open>starts_with s p\<close> holds when \<open>p\<close> is a prefix of \<open>s\<close>.
\<close>

fun starts_with :: "string \<Rightarrow> string \<Rightarrow> bool" where
  "starts_with s [] = True"
| "starts_with [] (c # p) = False"
| "starts_with (a # s) (c # p) = (a = c \<and> starts_with s p)"

text \<open>
  Modelled from the spec: the PrefixOrSubstring test, not among the sources. The pattern
  starts the field here or at some later position.
\<close>

fun strstr :: "string \<Rightarrow> string \<Rightarrow> bool" where
  "strstr [] p = (p = [])"
| "strstr (a # s) p = (starts_with (a # s) p \<or> strstr s p)"

text \<open>
  Modelled from the spec: the test of one field predicate, not among the sources. A field
  the platform does not provide fails its predicate.
\<close>

definition dmi_match_one :: "platform \<Rightarrow> dmi_strmatch \<Rightarrow> bool" where
  "dmi_match_one env m =
     (case dmi_ident env (slot m) of
        None \<Rightarrow> False
      | Some v \<Rightarrow> (if exact_match m then v = substr m else strstr v (substr m)))"

text \<open>
  Modelled from the spec: \<^verbatim>\<open>dmi_matches\<close> is not among the sources. A rule matches when
  every one of its field predicates holds.
\<close>

definition dmi_matches :: "platform \<Rightarrow> dmi_system_id \<Rightarrow> bool" where
  "dmi_matches env d = list_all (dmi_match_one env) (matches d)"

text \<open>
  Modelled from the spec: \<^verbatim>\<open>dmi_check_system\<close> is not among the sources. The spec has
  the rules tried in declaration order and the action of a rule run when its predicates
  all hold. The walker is handed the table and calls the callbacks; of a callback it sees
  the returned \<^verbatim>\<open>int\<close> only, not the store to the file-static \<open>acpi_backlight_dmi\<close>.
  So the store of a callback is applied, and the walk ends or goes on to the next rule
  according to the value returned (\<open>dmi_walk_stops\<close>). The spec has evaluation continue
  after a gated rule whose probe fails; that callback returns 0, as every callback of
  this file does.
\<close>

fun dmi_check_system :: "platform \<Rightarrow> dmi_system_id list \<Rightarrow> state \<Rightarrow> state" where
  "dmi_check_system env [] s = s"
| "dmi_check_system env (d # ds) s =
     (if dmi_matches env d
      then (case callback d env of
              (w, r) \<Rightarrow>
                (let s' = (case w of None \<Rightarrow> s | Some t \<Rightarrow> s\<lparr>acpi_backlight_dmi := t\<rparr>)
                 in if dmi_walk_stops env r then s' else dmi_check_system env ds s'))
      else dmi_check_system env ds s)"

subsection \<open>The decision\<close>

definition google_cros_ec_present :: "platform \<Rightarrow> bool" where
  "google_cros_ec_present env =
     (acpi_dev_found env ''GOOG0004'' \<or> acpi_dev_found env ''GOOG000C'')"

definition prefer_native_over_acpi_video :: "platform \<Rightarrow> bool" where
  "prefer_native_over_acpi_video env = (acpi_osi_is_win8 env \<or> google_cros_ec_present env)"

text \<open>The body of \<^verbatim>\<open>if (!init_done) { ... }\<close>, each step entered in the call log.\<close>

definition init_block :: "platform \<Rightarrow> state \<Rightarrow> state" where
  "init_block env s =
     (let s1 = (acpi_video_parse_cmdline env s)\<lparr>calls := calls s @ [Parse_cmdline]\<rparr>;
          s2 = (dmi_check_system env video_detect_dmi_table s1)
                 \<lparr>calls := calls s1 @ [Dmi_check_system]\<rparr>;
          s3 = s2\<lparr>video_caps := acpi_walk_namespace (acpi_namespace env) (video_caps s2),
                  calls := calls s2 @ [Acpi_walk_namespace]\<rparr>;
          s4 = s3\<lparr>nvidia_wmi_ec_present := nvidia_wmi_ec_supported env,
                  calls := calls s3 @ [Nvidia_wmi_ec_supported]\<rparr>
      in s4\<lparr>init_done := True\<rparr>)"

text \<open>
  The part of \<^verbatim>\<open>__acpi_video_get_backlight_type\<close> between \<^verbatim>\<open>mutex_lock\<close> and
  \<^verbatim>\<open>mutex_unlock\<close>: the one-time block, then the native flag. On a single thread of
  calls the mutex itself has no effect.
\<close>

definition locked_section :: "platform \<Rightarrow> bool \<Rightarrow> state \<Rightarrow> state" where
  "locked_section env native s =
     (let s1 = (if \<not> init_done s then init_block env s else s)
      in if native then s1\<lparr>native_available := True\<rparr> else s1)"

text \<open>
  \<^verbatim>\<open>__acpi_video_get_backlight_type(native, auto_detect)\<close>; an identifier cannot begin
  with an underscore here, hence the \<open>u_\<close>. The pointer \<open>auto_detect\<close> is \<open>None\<close> when
  the caller passes \<^verbatim>\<open>NULL\<close> and \<open>Some b\<close> when it points to a \<^verbatim>\<open>bool\<close> holding
  \<open>b\<close>; the second component of the result is what it points to on return.
\<close>

definition u_acpi_video_get_backlight_type ::
  "platform \<Rightarrow> bool \<Rightarrow> bool option \<Rightarrow> state \<Rightarrow> acpi_backlight_type \<times> bool option \<times> state"
where
  "u_acpi_video_get_backlight_type env native auto_detect s =
     (let s2 = locked_section env native s;
          ad0 = (case auto_detect of None \<Rightarrow> None | Some b \<Rightarrow> Some False)
      in if acpi_backlight_cmdline s2 \<noteq> acpi_backlight_undef
         then (acpi_backlight_cmdline s2, ad0, s2)
         else if acpi_backlight_dmi s2 \<noteq> acpi_backlight_undef
         then (acpi_backlight_dmi s2, ad0, s2)
         else if nvidia_wmi_ec_present s2
         then (acpi_backlight_nvidia_wmi_ec, ad0, s2)
         else
           (let ad1 = (case ad0 of None \<Rightarrow> None | Some b \<Rightarrow> Some True)
            in if (video_caps s2 AND ACPI_VIDEO_BACKLIGHT env) \<noteq> 0 \<and>
                  \<not> (native_available s2 \<and> prefer_native_over_acpi_video env)
               then (acpi_backlight_video, ad1, s2)
               else if native_available s2
               then (acpi_backlight_native, ad1, s2)
               else if acpi_osi_is_win8 env
               then (acpi_backlight_none, ad1, s2)
               else (acpi_backlight_vendor, ad1, s2)))"

text \<open>
  Modelled from the spec: the argument-less \<^verbatim>\<open>acpi_video_get_backlight_type()\<close> that the
  override entry point calls is declared in \<^verbatim>\<open>acpi/video.h\<close>, not among the sources. The
  spec has the override re-run the query; the re-run asserts no native interface and
  asks for no autodetection flag.
\<close>

definition acpi_video_get_backlight_type :: "platform \<Rightarrow> state \<Rightarrow> acpi_backlight_type \<times> state" where
  "acpi_video_get_backlight_type env s =
     (case u_acpi_video_get_backlight_type env False None s of (r, ad, s') \<Rightarrow> (r, s'))"

text \<open>The consumer's callback is outside this file; the call is entered in the log.\<close>

definition acpi_video_unregister_backlight :: "state \<Rightarrow> state" where
  "acpi_video_unregister_backlight s = s\<lparr>calls := calls s @ [Unregister_backlight]\<rparr>"

definition acpi_video_set_dmi_backlight_type ::
  "platform \<Rightarrow> acpi_backlight_type \<Rightarrow> state \<Rightarrow> state"
where
  "acpi_video_set_dmi_backlight_type env type s =
     (let s1 = s\<lparr>acpi_backlight_dmi := type\<rparr>
      in case acpi_video_get_backlight_type env s1 of
           (r, s2) \<Rightarrow>
             (if r \<noteq> acpi_backlight_video then acpi_video_unregister_backlight s2 else s2))"

subsection \<open>The precedence policy as the specification words it\<close>

definition preferNativeOverVideo :: "bool \<Rightarrow> bool \<Rightarrow> bool" where
  "preferNativeOverVideo modern ecChassis = (modern \<or> ecChassis)"

definition precedence_policy ::
  "acpi_backlight_type \<Rightarrow> acpi_backlight_type \<Rightarrow> bool \<Rightarrow> bool \<Rightarrow> bool \<Rightarrow> bool \<Rightarrow> bool
     \<Rightarrow> acpi_backlight_type"
where
  "precedence_policy cmdlineOverride dmiOverride vendorEcPresent videoCapable
       nativeAvailable preferNative modern =
     (if cmdlineOverride \<noteq> acpi_backlight_undef then cmdlineOverride
      else if dmiOverride \<noteq> acpi_backlight_undef then dmiOverride
      else if vendorEcPresent then acpi_backlight_nvidia_wmi_ec
      else if videoCapable \<and> \<not> (nativeAvailable \<and> preferNative) then acpi_backlight_video
      else if nativeAvailable then acpi_backlight_native
      else if modern then acpi_backlight_none
      else acpi_backlight_vendor)"

text \<open>The reading of a state that the specification's fields stand for.\<close>

definition videoCapable_of :: "platform \<Rightarrow> state \<Rightarrow> bool" where
  "videoCapable_of env s = ((video_caps s AND ACPI_VIDEO_BACKLIGHT env) \<noteq> 0)"

definition policy_of :: "platform \<Rightarrow> state \<Rightarrow> acpi_backlight_type" where
  "policy_of env s =
     precedence_policy (acpi_backlight_cmdline s) (acpi_backlight_dmi s)
       (nvidia_wmi_ec_present s) (videoCapable_of env s) (native_available s)
       (preferNativeOverVideo (acpi_osi_is_win8 env) (google_cros_ec_present env))
       (acpi_osi_is_win8 env)"


definition precedence_step ::
  "acpi_backlight_type \<Rightarrow> acpi_backlight_type \<Rightarrow> bool \<Rightarrow> bool \<Rightarrow> bool \<Rightarrow> bool \<Rightarrow> bool
     \<Rightarrow> nat"
where
  "precedence_step cmdlineOverride dmiOverride vendorEcPresent videoCapable
       nativeAvailable preferNative modern =
     (if cmdlineOverride \<noteq> acpi_backlight_undef then 1
      else if dmiOverride \<noteq> acpi_backlight_undef then 2
      else if vendorEcPresent then 3
      else if videoCapable \<and> \<not> (nativeAvailable \<and> preferNative) then 4
      else if nativeAvailable then 5
      else if modern then 6
      else 7)"

definition step_of :: "platform \<Rightarrow> state \<Rightarrow> nat" where
  "step_of env s =
     precedence_step (acpi_backlight_cmdline s) (acpi_backlight_dmi s)
       (nvidia_wmi_ec_present s) (videoCapable_of env s) (native_available s)
       (preferNativeOverVideo (acpi_osi_is_win8 env) (google_cros_ec_present env))
       (acpi_osi_is_win8 env)"

subsection \<open>Sequences of calls\<close>

text \<open>
  The two public operations as drivers call them, each call with the platform as it
  answers at that moment.
\<close>

datatype op =
    Query bool "bool option"
  | Set_dmi acpi_backlight_type

fun is_query :: "op \<Rightarrow> bool" where
  "is_query (Query native auto_detect) = True"
| "is_query (Set_dmi type) = False"

fun run_op :: "platform \<Rightarrow> op \<Rightarrow> state \<Rightarrow> state" where
  "run_op env (Query native auto_detect) s =
     snd (snd (u_acpi_video_get_backlight_type env native auto_detect s))"
| "run_op env (Set_dmi type) s = acpi_video_set_dmi_backlight_type env type s"

fun run_ops :: "(platform \<times> op) list \<Rightarrow> state \<Rightarrow> state" where
  "run_ops [] s = s"
| "run_ops ((env, x) # xs) s = run_ops xs (run_op env x s)"

subsection \<open>Example platforms\<close>

text \<open>
  A platform that answers nothing: no token, no identity, no devices, firmware call
  failing. Its table walk goes on after a callback that returns 0.
\<close>

definition bare_platform :: platform where
  "bare_platform =
     \<lparr>acpi_video_backlight_string = [],
      dmi_ident = (\<lambda>f. None),
      dmi_walk_stops = (\<lambda>r. r \<noteq> 0),
      pci_get_device_trident = False,
      acpi_namespace = [],
      CONFIG_X86 = True,
      wmi_evaluate_method = None,
      WMI_BRIGHTNESS_SOURCE_EC = 2,
      ACPI_VIDEO_BACKLIGHT = 8,
      acpi_osi_is_win8 = False,
      acpi_dev_found = (\<lambda>hid. False)\<rparr>"

text \<open>One video device with a backlight behind a PCI graphics device.\<close>

definition video_node :: acpi_node where
  "video_node =
     \<lparr>acpi_fetch_acpi_dev = True,
      acpi_match_device_ids = 0,
      acpi_get_pci_dev = True,
      acpi_is_video_device = 8\<rparr>"

text \<open>
  A Lenovo machine whose identity satisfies two rules of the table with different
  actions: the ThinkPad T420 rule (video, entry 10 counting from 0) and, further down,
  the 3371 rule (native, entry 30).
\<close>

definition lenovo_ident :: "dmi_field \<Rightarrow> string option" where
  "lenovo_ident f =
     (case f of
        DMI_SYS_VENDOR \<Rightarrow> Some ''LENOVO''
      | DMI_PRODUCT_NAME \<Rightarrow> Some ''3371A12''
      | DMI_PRODUCT_VERSION \<Rightarrow> Some ''ThinkPad T420''
      | DMI_BOARD_NAME \<Rightarrow> None
      | DMI_BIOS_VERSION \<Rightarrow> None)"

text \<open>The value a rule commits on a platform, if it commits one.\<close>

definition rule_action :: "platform \<Rightarrow> dmi_system_id \<Rightarrow> acpi_backlight_type option" where
  "rule_action env d = (if dmi_matches env d then fst (callback d env) else None)"

definition lenovo_platform :: platform where
  "lenovo_platform = bare_platform\<lparr>dmi_ident := lenovo_ident\<rparr>"

text \<open>
  An identity that satisfies the same two rules and, before them, the predicates of the
  gated Toshiba rule (entry 6), on a machine without the Trident chip and with a table
  walk that ends after the first callback it runs.
\<close>

definition toshiba_lenovo_ident :: "dmi_field \<Rightarrow> string option" where
  "toshiba_lenovo_ident f =
     (case f of
        DMI_SYS_VENDOR \<Rightarrow> Some ''TOSHIBA LENOVO''
      | DMI_PRODUCT_NAME \<Rightarrow> Some ''Portable PC 3371''
      | DMI_PRODUCT_VERSION \<Rightarrow> Some ''Version 1.0 ThinkPad T420''
      | DMI_BOARD_NAME \<Rightarrow> Some ''Portable PC''
      | DMI_BIOS_VERSION \<Rightarrow> None)"

definition stopping_platform :: platform where
  "stopping_platform =
     bare_platform\<lparr>dmi_ident := toshiba_lenovo_ident, dmi_walk_stops := (\<lambda>r. True)\<rparr>"

text \<open>
  A Dell Vostro 15 3535 (one rule of the table, entry 5) booted with
  \<^verbatim>\<open>acpi_backlight=vendor\<close>, with one video device and the EC owning the brightness.
\<close>

definition dell_ident :: "dmi_field \<Rightarrow> string option" where
  "dell_ident f =
     (case f of
        DMI_SYS_VENDOR \<Rightarrow> Some ''Dell Inc.''
      | DMI_PRODUCT_NAME \<Rightarrow> Some ''Vostro 15 3535''
      | DMI_PRODUCT_VERSION \<Rightarrow> None
      | DMI_BOARD_NAME \<Rightarrow> None
      | DMI_BIOS_VERSION \<Rightarrow> None)"

definition dell_platform :: platform where
  "dell_platform =
     bare_platform\<lparr>acpi_video_backlight_string := ''vendor'', dmi_ident := dell_ident,
       acpi_namespace := [video_node], wmi_evaluate_method := Some 2\<rparr>"

text \<open>A machine of the Windows 8 generation with an ACPI video device.\<close>

definition win8_platform :: platform where
  "win8_platform = bare_platform\<lparr>acpi_namespace := [video_node], acpi_osi_is_win8 := True\<rparr>"

text \<open>A state after initialisation with nothing forced and nothing detected.\<close>

definition idle_state :: state where
  "idle_state = init_state\<lparr>init_done := True\<rparr>"

section \<open>Frame and shape of the operations\<close>

lemma parse_cmdline_fields:
  "acpi_backlight_dmi (acpi_video_parse_cmdline env s) = acpi_backlight_dmi s"
  "nvidia_wmi_ec_present (acpi_video_parse_cmdline env s) = nvidia_wmi_ec_present s"
  "native_available (acpi_video_parse_cmdline env s) = native_available s"
  "init_done (acpi_video_parse_cmdline env s) = init_done s"
  "video_caps (acpi_video_parse_cmdline env s) = video_caps s"
  "calls (acpi_video_parse_cmdline env s) = calls s"
  by (simp_all add: acpi_video_parse_cmdline_def Let_def)

lemma parse_cmdline_ignores_dmi:
  "acpi_backlight_cmdline (acpi_video_parse_cmdline env (s\<lparr>acpi_backlight_dmi := t\<rparr>)) =
     acpi_backlight_cmdline (acpi_video_parse_cmdline env s)"
  by (simp add: acpi_video_parse_cmdline_def Let_def)

lemma dmi_check_system_fields:
  "acpi_backlight_cmdline (dmi_check_system env ds s) = acpi_backlight_cmdline s"
  "nvidia_wmi_ec_present (dmi_check_system env ds s) = nvidia_wmi_ec_present s"
  "native_available (dmi_check_system env ds s) = native_available s"
  "init_done (dmi_check_system env ds s) = init_done s"
  "video_caps (dmi_check_system env ds s) = video_caps s"
  "calls (dmi_check_system env ds s) = calls s"
  by (induction ds arbitrary: s) (simp_all add: Let_def split: prod.splits option.splits)

lemma dmi_update_swap:
  "s\<lparr>acpi_backlight_dmi := t, acpi_backlight_cmdline := c\<rparr> =
     s\<lparr>acpi_backlight_cmdline := c, acpi_backlight_dmi := t\<rparr>"
  "s\<lparr>acpi_backlight_dmi := t, calls := l\<rparr> = s\<lparr>calls := l, acpi_backlight_dmi := t\<rparr>"
  by (rule state.equality; simp)+

lemma dmi_check_system_cmdline_update:
  "dmi_check_system env ds (s\<lparr>acpi_backlight_cmdline := c\<rparr>) =
     (dmi_check_system env ds s)\<lparr>acpi_backlight_cmdline := c\<rparr>"
proof (induction ds arbitrary: s)
  case Nil
  show ?case by simp
next
  case (Cons d ds)
  obtain w r where cb: "callback d env = (w, r)" by (cases "callback d env")
  show ?case
  proof (cases w)
    case None
    then show ?thesis
      using cb Cons.IH [of s] by (simp add: Let_def)
  next
    case (Some t)
    then show ?thesis
      using cb Cons.IH [of s] Cons.IH [of "s\<lparr>acpi_backlight_dmi := t\<rparr>"]
      by (simp add: Let_def dmi_update_swap)
  qed
qed

lemma dmi_check_system_calls_update:
  "dmi_check_system env ds (s\<lparr>calls := l\<rparr>) = (dmi_check_system env ds s)\<lparr>calls := l\<rparr>"
proof (induction ds arbitrary: s)
  case Nil
  show ?case by simp
next
  case (Cons d ds)
  obtain w r where cb: "callback d env = (w, r)" by (cases "callback d env")
  show ?case
  proof (cases w)
    case None
    then show ?thesis
      using cb Cons.IH [of s] by (simp add: Let_def)
  next
    case (Some t)
    then show ?thesis
      using cb Cons.IH [of s] Cons.IH [of "s\<lparr>acpi_backlight_dmi := t\<rparr>"]
      by (simp add: Let_def dmi_update_swap)
  qed
qed

lemma parse_cmdline_frame:
  "acpi_video_parse_cmdline env s =
     s\<lparr>acpi_backlight_cmdline := acpi_backlight_cmdline (acpi_video_parse_cmdline env s)\<rparr>"
  by (simp add: acpi_video_parse_cmdline_def Let_def)

lemma init_block_fields:
  "init_done (init_block env s)"
  "native_available (init_block env s) = native_available s"
  "calls (init_block env s) =
     calls s @ [Parse_cmdline, Dmi_check_system, Acpi_walk_namespace, Nvidia_wmi_ec_supported]"
  "acpi_backlight_cmdline (init_block env s) =
     acpi_backlight_cmdline (acpi_video_parse_cmdline env s)"
  "nvidia_wmi_ec_present (init_block env s) = nvidia_wmi_ec_supported env"
  "video_caps (init_block env s) = acpi_walk_namespace (acpi_namespace env) (video_caps s)"
  by (simp_all add: init_block_def Let_def parse_cmdline_fields dmi_check_system_fields)

lemma init_block_dmi:
  "acpi_backlight_dmi (init_block env s) =
     acpi_backlight_dmi (dmi_check_system env video_detect_dmi_table s)"
proof -
  have "acpi_backlight_dmi
          (dmi_check_system env video_detect_dmi_table
             ((acpi_video_parse_cmdline env s)\<lparr>calls := calls s @ [Parse_cmdline]\<rparr>)) =
        acpi_backlight_dmi (dmi_check_system env video_detect_dmi_table s)"
    by (subst parse_cmdline_frame)
      (simp add: dmi_check_system_cmdline_update dmi_check_system_calls_update)
  then show ?thesis
    by (simp add: init_block_def Let_def)
qed

lemma locked_section_eq:
  "locked_section env native s =
     (if native
      then (if init_done s then s else init_block env s)\<lparr>native_available := True\<rparr>
      else (if init_done s then s else init_block env s))"
  by (simp add: locked_section_def Let_def)

lemma get_state:
  "snd (snd (u_acpi_video_get_backlight_type env native ad s)) = locked_section env native s"
  by (simp add: u_acpi_video_get_backlight_type_def Let_def)

lemma get_result_policy:
  "fst (u_acpi_video_get_backlight_type env native ad s) =
     policy_of env (locked_section env native s)"
  by (simp add: u_acpi_video_get_backlight_type_def policy_of_def precedence_policy_def
      videoCapable_of_def preferNativeOverVideo_def prefer_native_over_acpi_video_def Let_def)

lemma get_auto_detect:
  "fst (snd (u_acpi_video_get_backlight_type env native ad s)) =
     (case ad of
        None \<Rightarrow> None
      | Some b \<Rightarrow> Some (4 \<le> step_of env (locked_section env native s)))"
  by (cases ad)
    (simp_all add: u_acpi_video_get_backlight_type_def step_of_def precedence_step_def
      videoCapable_of_def preferNativeOverVideo_def prefer_native_over_acpi_video_def Let_def)

lemma locked_section_init_done:
  "init_done s \<Longrightarrow>
   locked_section env native s = s\<lparr>native_available := native_available s \<or> native\<rparr>"
  by (simp add: locked_section_eq)

lemma locked_section_fields:
  "init_done (locked_section env native s)"
  "native_available (locked_section env native s) = (native_available s \<or> native)"
  by (simp_all add: locked_section_eq init_block_fields)

lemma locked_section_no_hint:
  "locked_section env False s = (if init_done s then s else init_block env s)"
  by (simp add: locked_section_eq)

lemma wrapper_unfold:
  "acpi_video_get_backlight_type env s =
     (fst (u_acpi_video_get_backlight_type env False None s),
      snd (snd (u_acpi_video_get_backlight_type env False None s)))"
  by (simp add: acpi_video_get_backlight_type_def split: prod.splits)

lemma set_dmi_unfold:
  "acpi_video_set_dmi_backlight_type env t s =
     (let s2 = (if init_done s then s\<lparr>acpi_backlight_dmi := t\<rparr>
                else init_block env (s\<lparr>acpi_backlight_dmi := t\<rparr>))
      in if policy_of env s2 \<noteq> acpi_backlight_video
         then s2\<lparr>calls := calls s2 @ [Unregister_backlight]\<rparr> else s2)"
proof -
  let ?s1 = "s\<lparr>acpi_backlight_dmi := t\<rparr>"
  have st: "snd (snd (u_acpi_video_get_backlight_type env False None ?s1)) =
      (if init_done s then ?s1 else init_block env ?s1)"
    by (simp add: get_state locked_section_no_hint)
  have r: "fst (u_acpi_video_get_backlight_type env False None ?s1) =
      policy_of env (if init_done s then ?s1 else init_block env ?s1)"
    by (simp add: get_result_policy locked_section_no_hint)
  show ?thesis
    by (simp add: acpi_video_set_dmi_backlight_type_def wrapper_unfold st r
        acpi_video_unregister_backlight_def Let_def)
qed

lemma set_dmi_init_done_after: "init_done (acpi_video_set_dmi_backlight_type env t s)"
  by (simp add: set_dmi_unfold Let_def init_block_fields)

lemma set_dmi_native:
  "native_available (acpi_video_set_dmi_backlight_type env t s) = native_available s"
  by (simp add: set_dmi_unfold Let_def init_block_fields)

lemma run_op_init_done: "init_done (run_op env x s)"
  by (cases x) (simp_all add: get_state locked_section_fields set_dmi_init_done_after)

lemma run_op_native:
  "native_available (run_op env x s) =
     (native_available s \<or> (case x of Query native ad \<Rightarrow> native | Set_dmi t \<Rightarrow> False))"
  by (cases x) (simp_all add: get_state locked_section_fields set_dmi_native)

section \<open>Properties of the engine\<close>

text \<open>
  C9: the command-line parse maps the five literal tokens \<open>vendor\<close>, \<open>video\<close>,
  \<open>native\<close>, \<open>nvidia_wmi_ec\<close> and \<open>none\<close> (compared exactly, case included) to
  their enum values; on every other string, the empty one included, it changes nothing,
  so the override read after the parse of the initial state, and after the one-time
  block, is still Undefined. There is no error result to signal.
\<close>

theorem parse_cmdline_tokens:
  "(acpi_video_backlight_string env = ''vendor'' \<longrightarrow>
      acpi_backlight_cmdline (acpi_video_parse_cmdline env s) = acpi_backlight_vendor) \<and>
   (acpi_video_backlight_string env = ''video'' \<longrightarrow>
      acpi_backlight_cmdline (acpi_video_parse_cmdline env s) = acpi_backlight_video) \<and>
   (acpi_video_backlight_string env = ''native'' \<longrightarrow>
      acpi_backlight_cmdline (acpi_video_parse_cmdline env s) = acpi_backlight_native) \<and>
   (acpi_video_backlight_string env = ''nvidia_wmi_ec'' \<longrightarrow>
      acpi_backlight_cmdline (acpi_video_parse_cmdline env s) = acpi_backlight_nvidia_wmi_ec) \<and>
   (acpi_video_backlight_string env = ''none'' \<longrightarrow>
      acpi_backlight_cmdline (acpi_video_parse_cmdline env s) = acpi_backlight_none) \<and>
   (acpi_video_backlight_string env \<notin>
        {''vendor'', ''video'', ''native'', ''nvidia_wmi_ec'', ''none''} \<longrightarrow>
      acpi_video_parse_cmdline env s = s \<and>
      acpi_backlight_cmdline (acpi_video_parse_cmdline env init_state) = acpi_backlight_undef \<and>
      acpi_backlight_cmdline (init_block env init_state) = acpi_backlight_undef)"
  by (simp add: acpi_video_parse_cmdline_def Let_def init_state_def init_block_fields)

theorem parse_cmdline_tokens_witness:
  "acpi_backlight_cmdline
     (acpi_video_parse_cmdline (bare_platform\<lparr>acpi_video_backlight_string := ''vendor''\<rparr>)
        init_state) = acpi_backlight_vendor \<and>
   acpi_backlight_cmdline
     (acpi_video_parse_cmdline (bare_platform\<lparr>acpi_video_backlight_string := ''video''\<rparr>)
        init_state) = acpi_backlight_video \<and>
   acpi_backlight_cmdline
     (acpi_video_parse_cmdline (bare_platform\<lparr>acpi_video_backlight_string := ''native''\<rparr>)
        init_state) = acpi_backlight_native \<and>
   acpi_backlight_cmdline
     (acpi_video_parse_cmdline
        (bare_platform\<lparr>acpi_video_backlight_string := ''nvidia_wmi_ec''\<rparr>)
        init_state) = acpi_backlight_nvidia_wmi_ec \<and>
   acpi_backlight_cmdline
     (acpi_video_parse_cmdline (bare_platform\<lparr>acpi_video_backlight_string := ''none''\<rparr>)
        init_state) = acpi_backlight_none \<and>
   acpi_video_parse_cmdline (bare_platform\<lparr>acpi_video_backlight_string := ''Vendor''\<rparr>)
        init_state = init_state \<and>
   acpi_video_parse_cmdline bare_platform init_state = init_state"
  using
    parse_cmdline_tokens [of "bare_platform\<lparr>acpi_video_backlight_string := ''vendor''\<rparr>" init_state]
    parse_cmdline_tokens [of "bare_platform\<lparr>acpi_video_backlight_string := ''video''\<rparr>" init_state]
    parse_cmdline_tokens [of "bare_platform\<lparr>acpi_video_backlight_string := ''native''\<rparr>" init_state]
    parse_cmdline_tokens [of "bare_platform\<lparr>acpi_video_backlight_string := ''nvidia_wmi_ec''\<rparr>" init_state]
    parse_cmdline_tokens [of "bare_platform\<lparr>acpi_video_backlight_string := ''none''\<rparr>" init_state]
    parse_cmdline_tokens [of "bare_platform\<lparr>acpi_video_backlight_string := ''Vendor''\<rparr>" init_state]
    parse_cmdline_tokens [of bare_platform init_state]
  by (simp add: bare_platform_def)

text \<open>
  C1: on every initialised state the query returns the value of the seven-step
  precedence policy, read on the state with the native hint merged in. In particular,
  with no override, no vendor EC, a video-capable platform, a native interface available
  (before or by this call) and native preferred, the result is Native and not Video.
\<close>

theorem query_follows_precedence:
  "(init_done s \<longrightarrow>
      fst (u_acpi_video_get_backlight_type env native ad s) =
        policy_of env (s\<lparr>native_available := native_available s \<or> native\<rparr>)) \<and>
   (init_done s \<and> acpi_backlight_cmdline s = acpi_backlight_undef \<and>
    acpi_backlight_dmi s = acpi_backlight_undef \<and> \<not> nvidia_wmi_ec_present s \<and>
    videoCapable_of env s \<and> (native_available s \<or> native) \<and>
    prefer_native_over_acpi_video env \<longrightarrow>
      fst (u_acpi_video_get_backlight_type env native ad s) = acpi_backlight_native)"
proof (intro conjI impI)
  assume "init_done s"
  then show "fst (u_acpi_video_get_backlight_type env native ad s) =
      policy_of env (s\<lparr>native_available := native_available s \<or> native\<rparr>)"
    by (simp add: get_result_policy locked_section_init_done)
next
  assume "init_done s \<and> acpi_backlight_cmdline s = acpi_backlight_undef \<and>
    acpi_backlight_dmi s = acpi_backlight_undef \<and> \<not> nvidia_wmi_ec_present s \<and>
    videoCapable_of env s \<and> (native_available s \<or> native) \<and>
    prefer_native_over_acpi_video env"
  then show "fst (u_acpi_video_get_backlight_type env native ad s) = acpi_backlight_native"
    by (auto simp add: get_result_policy locked_section_init_done policy_of_def
        precedence_policy_def preferNativeOverVideo_def prefer_native_over_acpi_video_def)
qed

theorem query_follows_precedence_witness:
  "init_done (idle_state\<lparr>video_caps := 8\<rparr>) \<and>
   videoCapable_of win8_platform (idle_state\<lparr>video_caps := 8\<rparr>) \<and>
   prefer_native_over_acpi_video win8_platform \<and>
   policy_of win8_platform (idle_state\<lparr>video_caps := 8, native_available := True\<rparr>) =
     acpi_backlight_native \<and>
   fst (u_acpi_video_get_backlight_type win8_platform True None (idle_state\<lparr>video_caps := 8\<rparr>)) =
     acpi_backlight_native \<and>
   fst (u_acpi_video_get_backlight_type win8_platform False None (idle_state\<lparr>video_caps := 8\<rparr>)) =
     acpi_backlight_video"
  using query_follows_precedence [of "idle_state\<lparr>video_caps := 8\<rparr>" win8_platform True None]
    query_follows_precedence [of "idle_state\<lparr>video_caps := 8\<rparr>" win8_platform False None]
  by (simp add: idle_state_def init_state_def win8_platform_def bare_platform_def
      videoCapable_of_def prefer_native_over_acpi_video_def policy_of_def
      precedence_policy_def preferNativeOverVideo_def google_cros_ec_present_def)

text \<open>
  C2: whatever the state, the platform and the arguments, the query returns one of
  Vendor, Video, Native, VendorEmbeddedController, None and never Undefined. The query is
  a total function with no error result: a failing firmware call, an empty walk or a
  missing identity field only changes which of the five values comes out.
\<close>

theorem query_total:
  "fst (u_acpi_video_get_backlight_type env native ad s) \<noteq> acpi_backlight_undef \<and>
   (fst (u_acpi_video_get_backlight_type env native ad s) = acpi_backlight_vendor \<or>
    fst (u_acpi_video_get_backlight_type env native ad s) = acpi_backlight_video \<or>
    fst (u_acpi_video_get_backlight_type env native ad s) = acpi_backlight_native \<or>
    fst (u_acpi_video_get_backlight_type env native ad s) = acpi_backlight_nvidia_wmi_ec \<or>
    fst (u_acpi_video_get_backlight_type env native ad s) = acpi_backlight_none)"
proof -
  have "fst (u_acpi_video_get_backlight_type env native ad s) \<noteq> acpi_backlight_undef"
    by (simp add: u_acpi_video_get_backlight_type_def Let_def)
  then show ?thesis
    by (cases "fst (u_acpi_video_get_backlight_type env native ad s)") simp_all
qed


text \<open>
  C4, as stated: the flag is false when the result comes from the Vendor fallback of
  step 7. On a platform that answers nothing, the first query of a process returns
  Vendor from step 7 and reports the flag as true.
\<close>

theorem auto_detect_fallback_counterexample:
  "step_of bare_platform
     (snd (snd (u_acpi_video_get_backlight_type bare_platform False (Some False) init_state))) = 7 \<and>
   fst (u_acpi_video_get_backlight_type bare_platform False (Some False) init_state) =
     acpi_backlight_vendor \<and>
   fst (snd (u_acpi_video_get_backlight_type bare_platform False (Some False) init_state)) =
     Some True"
  by code_simp

text \<open>
  C4, amended: when the caller supplies the flag, the query sets it to true exactly
  when the result comes from steps 4 to 7 of the precedence policy (no command-line
  override, no DMI override, no vendor EC), the None and Vendor fallbacks included, and to
  false when it comes from steps 1 to 3; when the caller supplies none, none is reported.
\<close>

theorem auto_detect_reports_steps_4_to_7:
  "fst (snd (u_acpi_video_get_backlight_type env native (Some b) s)) =
     Some (4 \<le> step_of env (snd (snd (u_acpi_video_get_backlight_type env native (Some b) s)))) \<and>
   fst (snd (u_acpi_video_get_backlight_type env native None s)) = None \<and>
   (4 \<le> step_of env s) =
     (acpi_backlight_cmdline s = acpi_backlight_undef \<and>
      acpi_backlight_dmi s = acpi_backlight_undef \<and> \<not> nvidia_wmi_ec_present s)"
proof -
  have "(4 \<le> step_of env s) =
     (acpi_backlight_cmdline s = acpi_backlight_undef \<and>
      acpi_backlight_dmi s = acpi_backlight_undef \<and> \<not> nvidia_wmi_ec_present s)"
    by (simp add: step_of_def precedence_step_def)
  then show ?thesis
    by (simp add: get_auto_detect get_state)
qed

text \<open>
  C5: for every type \<open>t\<close>, the override entry point stores \<open>t\<close>, re-runs the query, and
  calls the consumer's Unregister once if the re-run returns anything but Video and not
  at all if it returns Video. Called after initialisation, as the interface requires,
  the override still holds \<open>t\<close> on return, the re-run is the precedence policy on the
  state with the new override, and nothing else changes.
\<close>

theorem set_dmi_unregisters_unless_video:
  "count_list (calls (acpi_video_set_dmi_backlight_type env t s)) Unregister_backlight =
     count_list (calls s) Unregister_backlight +
       (if fst (acpi_video_get_backlight_type env (s\<lparr>acpi_backlight_dmi := t\<rparr>)) =
            acpi_backlight_video then 0 else 1) \<and>
   (init_done s \<longrightarrow>
      acpi_backlight_dmi (acpi_video_set_dmi_backlight_type env t s) = t \<and>
      fst (acpi_video_get_backlight_type env (s\<lparr>acpi_backlight_dmi := t\<rparr>)) =
        policy_of env (s\<lparr>acpi_backlight_dmi := t\<rparr>) \<and>
      acpi_video_set_dmi_backlight_type env t s =
        (if policy_of env (s\<lparr>acpi_backlight_dmi := t\<rparr>) = acpi_backlight_video
         then s\<lparr>acpi_backlight_dmi := t\<rparr>
         else s\<lparr>acpi_backlight_dmi := t, calls := calls s @ [Unregister_backlight]\<rparr>))"
proof -
  let ?s1 = "s\<lparr>acpi_backlight_dmi := t\<rparr>"
  let ?s2 = "if init_done s then ?s1 else init_block env ?s1"
  have r: "fst (acpi_video_get_backlight_type env ?s1) = policy_of env ?s2"
    by (simp add: wrapper_unfold get_result_policy locked_section_no_hint)
  have c: "count_list (calls ?s2) Unregister_backlight =
      count_list (calls s) Unregister_backlight"
    by (simp add: init_block_fields)
  have "count_list (calls (acpi_video_set_dmi_backlight_type env t s)) Unregister_backlight =
     count_list (calls s) Unregister_backlight +
       (if policy_of env ?s2 = acpi_backlight_video then 0 else 1)"
    using c by (simp add: set_dmi_unfold Let_def)
  moreover have "init_done s \<Longrightarrow>
      acpi_video_set_dmi_backlight_type env t s =
        (if policy_of env ?s1 = acpi_backlight_video then ?s1
         else s\<lparr>acpi_backlight_dmi := t, calls := calls s @ [Unregister_backlight]\<rparr>)"
    by (simp add: set_dmi_unfold Let_def)
  ultimately show ?thesis
    using r by simp
qed

theorem set_dmi_unregisters_unless_video_witness:
  "init_done idle_state \<and>
   acpi_video_set_dmi_backlight_type bare_platform acpi_backlight_native idle_state =
     idle_state\<lparr>acpi_backlight_dmi := acpi_backlight_native,
       calls := [Unregister_backlight]\<rparr> \<and>
   acpi_video_set_dmi_backlight_type bare_platform acpi_backlight_video idle_state =
     idle_state\<lparr>acpi_backlight_dmi := acpi_backlight_video\<rparr>"
  using set_dmi_unregisters_unless_video [of bare_platform acpi_backlight_native idle_state]
    set_dmi_unregisters_unless_video [of bare_platform acpi_backlight_video idle_state]
  by (simp add: idle_state_def init_state_def policy_of_def precedence_policy_def)

text \<open>
  C6: the native-available flag never goes back. A query leaves it true if it was true
  and makes it true if the hint is given; a query without the hint leaves it as it was;
  the override entry point leaves it as it was; so once true it is true after every
  sequence of calls, on whatever platforms they run.
\<close>

theorem native_available_monotonic:
  "native_available (run_op env (Query native ad) s) = (native_available s \<or> native) \<and>
   native_available (run_op env (Query False ad) s) = native_available s \<and>
   native_available (run_op env (Set_dmi t) s) = native_available s \<and>
   (native_available s \<longrightarrow> native_available (run_ops xs s))"
proof -
  have "native_available s \<Longrightarrow> native_available (run_ops xs s)"
  proof (induction xs arbitrary: s)
    case Nil
    then show ?case by simp
  next
    case (Cons p xs)
    obtain e x where p: "p = (e, x)" by (cases p)
    from Cons.prems have "native_available (run_op e x s)"
      by (simp add: run_op_native)
    then show ?case
      using Cons.IH p by simp
  qed
  then show ?thesis
    by (simp add: get_state locked_section_fields set_dmi_native)
qed

theorem native_available_monotonic_witness:
  "native_available (run_op bare_platform (Query True None) init_state) \<and>
   native_available
     (run_ops [(win8_platform, Query False None), (bare_platform, Set_dmi acpi_backlight_undef),
               (bare_platform, Query False (Some True))]
        (run_op bare_platform (Query True None) init_state))"
proof -
  have h: "native_available (run_op bare_platform (Query True None) init_state)"
    using native_available_monotonic [of bare_platform True None init_state] by simp
  with native_available_monotonic [of bare_platform True None
      "run_op bare_platform (Query True None) init_state" acpi_backlight_undef
      "[(win8_platform, Query False None), (bare_platform, Set_dmi acpi_backlight_undef),
        (bare_platform, Query False (Some True))]"]
  show ?thesis by blast
qed

subsection \<open>What a sequence of calls keeps\<close>

lemma run_op_query_init_done:
  "init_done s \<Longrightarrow> is_query x \<Longrightarrow>
   run_op env x s = s\<lparr>native_available := native_available (run_op env x s)\<rparr>"
  by (cases x) (simp_all add: get_state locked_section_init_done)

lemma run_queries_init_done:
  "init_done s \<Longrightarrow> list_all (\<lambda>p. is_query (snd p)) qs \<Longrightarrow>
   run_ops qs s = s\<lparr>native_available := native_available (run_ops qs s)\<rparr>"
proof (induction qs arbitrary: s)
  case Nil
  then show ?case by simp
next
  case (Cons p qs)
  obtain e x where p: "p = (e, x)" by (cases p)
  let ?s1 = "run_op e x s"
  from Cons.prems p have q: "is_query x" and rest: "list_all (\<lambda>p. is_query (snd p)) qs"
    by simp_all
  have s1: "?s1 = s\<lparr>native_available := native_available ?s1\<rparr>"
    using run_op_query_init_done [OF Cons.prems(1) q] .
  have "init_done ?s1" by (rule run_op_init_done)
  from Cons.IH [OF this rest]
  have "run_ops qs ?s1 = ?s1\<lparr>native_available := native_available (run_ops qs ?s1)\<rparr>" .
  also have "\<dots> = s\<lparr>native_available := native_available (run_ops qs ?s1)\<rparr>"
    by (subst s1) simp
  finally show ?case using p by simp
qed

lemma run_op_cached:
  assumes "init_done s"
  shows "acpi_backlight_cmdline (run_op env x s) = acpi_backlight_cmdline s"
    and "video_caps (run_op env x s) = video_caps s"
    and "nvidia_wmi_ec_present (run_op env x s) = nvidia_wmi_ec_present s"
    and "filter (\<lambda>c. c \<noteq> Unregister_backlight) (calls (run_op env x s)) =
           filter (\<lambda>c. c \<noteq> Unregister_backlight) (calls s)"
  using assms
  by (cases x; simp add: get_state locked_section_init_done set_dmi_unfold Let_def)+

lemma run_op_first:
  assumes "\<not> init_done s"
  shows "acpi_backlight_cmdline (run_op env x s) = acpi_backlight_cmdline (init_block env s)"
    and "video_caps (run_op env x s) = video_caps (init_block env s)"
    and "nvidia_wmi_ec_present (run_op env x s) = nvidia_wmi_ec_present (init_block env s)"
    and "filter (\<lambda>c. c \<noteq> Unregister_backlight) (calls (run_op env x s)) =
           filter (\<lambda>c. c \<noteq> Unregister_backlight) (calls s) @
             [Parse_cmdline, Dmi_check_system, Acpi_walk_namespace, Nvidia_wmi_ec_supported]"
  using assms
  by (cases x; simp add: get_state locked_section_eq set_dmi_unfold Let_def init_block_fields
        parse_cmdline_ignores_dmi)+

lemma run_ops_cached:
  assumes "init_done s"
  shows "init_done (run_ops xs s) \<and>
         acpi_backlight_cmdline (run_ops xs s) = acpi_backlight_cmdline s \<and>
         video_caps (run_ops xs s) = video_caps s \<and>
         nvidia_wmi_ec_present (run_ops xs s) = nvidia_wmi_ec_present s \<and>
         filter (\<lambda>c. c \<noteq> Unregister_backlight) (calls (run_ops xs s)) =
           filter (\<lambda>c. c \<noteq> Unregister_backlight) (calls s)"
  using assms
proof (induction xs arbitrary: s)
  case Nil
  then show ?case by simp
next
  case (Cons p xs)
  obtain e x where p: "p = (e, x)" by (cases p)
  have "init_done (run_op e x s)" by (rule run_op_init_done)
  from Cons.IH [OF this] show ?case
    using p by (simp add: run_op_cached [OF Cons.prems])
qed


lemma native_update_fields:
  assumes "r = r0\<lparr>native_available := b\<rparr>"
  shows "acpi_backlight_cmdline r = acpi_backlight_cmdline r0"
    and "acpi_backlight_dmi r = acpi_backlight_dmi r0"
    and "nvidia_wmi_ec_present r = nvidia_wmi_ec_present r0"
    and "video_caps r = video_caps r0"
    and "calls r = calls r0"
  using assms by simp_all

lemma native_update_absorbed:
  "(b \<longrightarrow> native_available r) \<Longrightarrow> r\<lparr>native_available := native_available r \<or> b\<rparr> = r"
  by (cases "native_available r") auto

subsection \<open>Repetition and overrides\<close>

text \<open>
  C8: two queries in a row on the same platform, with no override call in between and
  the second asserting the native hint only if the first did or the native flag was set
  already, return the same result, set the flag the same way, and the second leaves the
  state as the first left it.
\<close>

theorem query_idempotent:
  assumes "native2 \<longrightarrow> native1 \<or> native_available s"
  shows "fst (u_acpi_video_get_backlight_type env native2 ad2
            (snd (snd (u_acpi_video_get_backlight_type env native1 ad1 s)))) =
           fst (u_acpi_video_get_backlight_type env native1 ad1 s) \<and>
         snd (snd (u_acpi_video_get_backlight_type env native2 ad2
            (snd (snd (u_acpi_video_get_backlight_type env native1 ad1 s))))) =
           snd (snd (u_acpi_video_get_backlight_type env native1 ad1 s)) \<and>
         fst (snd (u_acpi_video_get_backlight_type env native2 ad1
            (snd (snd (u_acpi_video_get_backlight_type env native1 ad1 s))))) =
           fst (snd (u_acpi_video_get_backlight_type env native1 ad1 s))"
proof -
  let ?s1 = "locked_section env native1 s"
  have "native2 \<longrightarrow> native_available ?s1"
    using assms by (auto simp add: locked_section_fields)
  then have "?s1\<lparr>native_available := native_available ?s1 \<or> native2\<rparr> = ?s1"
    by (rule native_update_absorbed)
  then have same: "locked_section env native2 ?s1 = ?s1"
    by (simp add: locked_section_init_done locked_section_fields)
  show ?thesis
    unfolding get_state get_result_policy get_auto_detect same by simp
qed

theorem query_idempotent_witness:
  "fst (u_acpi_video_get_backlight_type win8_platform True None
          (snd (snd (u_acpi_video_get_backlight_type win8_platform True None init_state)))) =
     fst (u_acpi_video_get_backlight_type win8_platform True None init_state) \<and>
   fst (u_acpi_video_get_backlight_type win8_platform False None
          (snd (snd (u_acpi_video_get_backlight_type win8_platform False None init_state)))) =
     fst (u_acpi_video_get_backlight_type win8_platform False None init_state)"
  using query_idempotent [where ?native2.0 = True and ?native1.0 = True and s = init_state
      and env = win8_platform and ?ad1.0 = None and ?ad2.0 = None]
    query_idempotent [where ?native2.0 = False and ?native1.0 = False and s = init_state
      and env = win8_platform and ?ad1.0 = None and ?ad2.0 = None]
  by simp

text \<open>
  C10: the override entry point accepts the Undefined sentinel. Called after
  initialisation with no command-line override in force, it leaves the DMI override
  Undefined, whatever it was before; the override is still Undefined after any number of
  further queries, and each of those is decided at step 3 or later of the precedence
  policy, by the vendor-EC flag and the autodetection inputs alone.
\<close>

theorem set_dmi_undef_clears_override:
  assumes "init_done s"
    and "acpi_backlight_cmdline s = acpi_backlight_undef"
    and "list_all (\<lambda>p. is_query (snd p)) qs"
  shows "acpi_backlight_dmi (acpi_video_set_dmi_backlight_type env acpi_backlight_undef s) =
           acpi_backlight_undef \<and>
         acpi_video_set_dmi_backlight_type env acpi_backlight_undef
             (s\<lparr>acpi_backlight_dmi := d\<rparr>) =
           acpi_video_set_dmi_backlight_type env acpi_backlight_undef s \<and>
         acpi_backlight_dmi
             (run_ops qs (acpi_video_set_dmi_backlight_type env acpi_backlight_undef s)) =
           acpi_backlight_undef \<and>
         3 \<le> step_of env'
             (snd (snd (u_acpi_video_get_backlight_type env' native ad
                (run_ops qs (acpi_video_set_dmi_backlight_type env acpi_backlight_undef s))))) \<and>
         fst (u_acpi_video_get_backlight_type env' native ad
                (run_ops qs (acpi_video_set_dmi_backlight_type env acpi_backlight_undef s))) =
           precedence_policy acpi_backlight_undef acpi_backlight_undef
             (nvidia_wmi_ec_present s) (videoCapable_of env' s)
             (native_available
                (run_ops qs (acpi_video_set_dmi_backlight_type env acpi_backlight_undef s)) \<or>
              native)
             (preferNativeOverVideo (acpi_osi_is_win8 env') (google_cros_ec_present env'))
             (acpi_osi_is_win8 env')"
proof -
  let ?s1 = "acpi_video_set_dmi_backlight_type env acpi_backlight_undef s"
  let ?s2 = "run_ops qs ?s1"
  let ?s3 = "locked_section env' native ?s2"
  have s1: "acpi_backlight_dmi ?s1 = acpi_backlight_undef"
    "acpi_backlight_cmdline ?s1 = acpi_backlight_undef"
    "nvidia_wmi_ec_present ?s1 = nvidia_wmi_ec_present s"
    "video_caps ?s1 = video_caps s"
    using assms(1,2) by (simp_all add: set_dmi_unfold Let_def)
  have old: "acpi_video_set_dmi_backlight_type env acpi_backlight_undef
             (s\<lparr>acpi_backlight_dmi := d\<rparr>) = ?s1"
    by (simp add: acpi_video_set_dmi_backlight_type_def)
  have d1: "init_done ?s1" by (rule set_dmi_init_done_after)
  have "?s2 = ?s1\<lparr>native_available := native_available ?s2\<rparr>"
    using run_queries_init_done [OF d1 assms(3)] .
  then have s2: "acpi_backlight_dmi ?s2 = acpi_backlight_dmi ?s1"
    "acpi_backlight_cmdline ?s2 = acpi_backlight_cmdline ?s1"
    "nvidia_wmi_ec_present ?s2 = nvidia_wmi_ec_present ?s1"
    "video_caps ?s2 = video_caps ?s1"
    by (rule native_update_fields)+
  have d2: "init_done ?s2"
    using run_ops_cached [OF d1, of qs] by simp
  have s3: "?s3 = ?s2\<lparr>native_available := native_available ?s2 \<or> native\<rparr>"
    using d2 by (rule locked_section_init_done)
  have f3: "acpi_backlight_dmi ?s3 = acpi_backlight_undef"
    "acpi_backlight_cmdline ?s3 = acpi_backlight_undef"
    "nvidia_wmi_ec_present ?s3 = nvidia_wmi_ec_present s"
    "video_caps ?s3 = video_caps s"
    "native_available ?s3 = (native_available ?s2 \<or> native)"
    by (simp_all add: s3 s2 s1)
  have step: "3 \<le> step_of env' ?s3"
    by (simp add: step_of_def precedence_step_def f3)
  have res: "policy_of env' ?s3 =
      precedence_policy acpi_backlight_undef acpi_backlight_undef
        (nvidia_wmi_ec_present s) (videoCapable_of env' s) (native_available ?s2 \<or> native)
        (preferNativeOverVideo (acpi_osi_is_win8 env') (google_cros_ec_present env'))
        (acpi_osi_is_win8 env')"
    by (simp add: policy_of_def videoCapable_of_def f3)
  show ?thesis
    using s1(1) old s2(1) step res by (simp add: get_state get_result_policy)
qed

theorem set_dmi_undef_clears_override_witness:
  "init_done (idle_state\<lparr>acpi_backlight_dmi := acpi_backlight_vendor\<rparr>) \<and>
   fst (u_acpi_video_get_backlight_type bare_platform False None
          (idle_state\<lparr>acpi_backlight_dmi := acpi_backlight_vendor\<rparr>)) = acpi_backlight_vendor \<and>
   acpi_backlight_dmi
     (acpi_video_set_dmi_backlight_type bare_platform acpi_backlight_undef
        (idle_state\<lparr>acpi_backlight_dmi := acpi_backlight_vendor\<rparr>)) = acpi_backlight_undef \<and>
   fst (u_acpi_video_get_backlight_type bare_platform True None
          (run_ops [(bare_platform, Query False None)]
             (acpi_video_set_dmi_backlight_type bare_platform acpi_backlight_undef
                (idle_state\<lparr>acpi_backlight_dmi := acpi_backlight_vendor\<rparr>)))) =
     acpi_backlight_native"
proof -
  let ?s = "idle_state\<lparr>acpi_backlight_dmi := acpi_backlight_vendor\<rparr>"
  have h1: "init_done ?s" and h2: "acpi_backlight_cmdline ?s = acpi_backlight_undef"
    by (simp_all add: idle_state_def init_state_def)
  have h3: "list_all (\<lambda>p. is_query (snd p)) [(bare_platform, Query False None)]"
    by simp
  have before: "fst (u_acpi_video_get_backlight_type bare_platform False None ?s) =
      acpi_backlight_vendor"
    by (simp add: u_acpi_video_get_backlight_type_def locked_section_def idle_state_def
        init_state_def)
  from set_dmi_undef_clears_override [OF h1 h2 h3, of bare_platform acpi_backlight_video bare_platform True None]
  show ?thesis
    using h1 before
    by (simp add: precedence_policy_def videoCapable_of_def idle_state_def init_state_def)
qed

subsection \<open>The table walk\<close>

lemma table_callbacks_return_0:
  "d \<in> set video_detect_dmi_table \<Longrightarrow> snd (callback d env) = 0"
  by (auto simp add: video_detect_dmi_table_def video_detect_force_vendor_def
      video_detect_force_video_def video_detect_force_native_def video_detect_portege_r100_def)

lemma dmi_check_system_no_commit:
  assumes "\<not> dmi_walk_stops env 0"
    and "\<forall>d\<in>set ds. snd (callback d env) = 0"
    and "\<forall>d\<in>set ds. rule_action env d = None"
  shows "dmi_check_system env ds s = s"
  using assms
proof (induction ds)
  case Nil
  show ?case by simp
next
  case (Cons d ds)
  obtain w r where cb: "callback d env = (w, r)" by (cases "callback d env")
  from Cons.prems cb have r: "r = 0" by simp
  from Cons.prems cb have w: "dmi_matches env d \<Longrightarrow> w = None"
    by (simp add: rule_action_def)
  from Cons have rest: "dmi_check_system env ds s = s" by simp
  show ?case
    using cb r w rest Cons.prems(1) by (simp add: Let_def)
qed

lemma dmi_check_system_last_commit:
  assumes "\<not> dmi_walk_stops env 0"
    and "\<forall>r\<in>set (pre @ d # post). snd (callback r env) = 0"
    and "rule_action env d = Some t"
    and "\<forall>r\<in>set post. rule_action env r = None"
  shows "dmi_check_system env (pre @ d # post) s = s\<lparr>acpi_backlight_dmi := t\<rparr>"
  using assms
proof (induction pre arbitrary: s)
  case Nil
  from Nil.prems(3) have m: "dmi_matches env d" and w: "fst (callback d env) = Some t"
    by (simp_all add: rule_action_def split: if_splits)
  from Nil.prems(2) have r: "snd (callback d env) = 0" by simp
  from w r have cb: "callback d env = (Some t, 0)" by (cases "callback d env") simp
  from Nil.prems(2) have "\<forall>r\<in>set post. snd (callback r env) = 0" by simp
  from dmi_check_system_no_commit [OF Nil.prems(1) this Nil.prems(4)]
  have "dmi_check_system env post (s\<lparr>acpi_backlight_dmi := t\<rparr>) = s\<lparr>acpi_backlight_dmi := t\<rparr>" .
  then show ?case
    using m cb Nil.prems(1) by (simp add: Let_def)
next
  case (Cons x pre)
  obtain w r where cb: "callback x env = (w, r)" by (cases "callback x env")
  from Cons.prems(2) cb have r: "r = 0" by simp
  from Cons.prems(2) have zeros: "\<forall>r\<in>set (pre @ d # post). snd (callback r env) = 0" by simp
  note IH = Cons.IH [OF Cons.prems(1) zeros Cons.prems(3) Cons.prems(4)]
  show ?case
  proof (cases w)
    case None
    then show ?thesis
      using cb r Cons.prems(1) IH [of s] by (simp add: Let_def)
  next
    case (Some u)
    then show ?thesis
      using cb r Cons.prems(1) IH [of s] IH [of "s\<lparr>acpi_backlight_dmi := u\<rparr>"]
      by (simp add: Let_def)
  qed
qed

text \<open>
  C3, as stated: the earliest-declared committing rule determines the override. Every
  callback returns 0, so a table walk treats all matching rules alike. If it goes on
  after a 0, a Lenovo identity on which the ThinkPad T420 rule (video) is the first to
  commit and the 3371 rule (native) commits later ends with native. If it ends after a
  0, an identity on which the same two rules commit ends with no override at all,
  because the walk ends at the gated Toshiba rule, whose predicates hold and whose probe
  fails.
\<close>

theorem first_match_wins_counterexample:
  "\<not> dmi_walk_stops lenovo_platform 0 \<and>
   list_all (\<lambda>r. rule_action lenovo_platform r = None) (take 10 video_detect_dmi_table) \<and>
   rule_action lenovo_platform (video_detect_dmi_table ! 10) = Some acpi_backlight_video \<and>
   rule_action lenovo_platform (video_detect_dmi_table ! 30) = Some acpi_backlight_native \<and>
   acpi_backlight_dmi
     (snd (snd (u_acpi_video_get_backlight_type lenovo_platform False None init_state))) =
     acpi_backlight_native \<and>
   dmi_walk_stops stopping_platform 0 \<and>
   list_all (\<lambda>r. rule_action stopping_platform r = None) (take 10 video_detect_dmi_table) \<and>
   dmi_matches stopping_platform (video_detect_dmi_table ! 6) \<and>
   rule_action stopping_platform (video_detect_dmi_table ! 10) = Some acpi_backlight_video \<and>
   rule_action stopping_platform (video_detect_dmi_table ! 30) = Some acpi_backlight_native \<and>
   acpi_backlight_dmi
     (snd (snd (u_acpi_video_get_backlight_type stopping_platform False None init_state))) =
     acpi_backlight_undef"
  by code_simp

text \<open>
  C3, amended: the quirk table is resolved last-match-wins. Every callback of the table
  returns 0; provided the table walk goes on after a callback that returns 0, the
  callback of every rule whose predicates hold is run in declaration order, each
  committing one overwriting the override, so the latest-declared rule that commits on a
  platform determines the DMI override, whatever rules declared before it commit. This is
  what the one-time block of the first query stores.
\<close>

theorem last_match_wins:
  assumes "\<not> dmi_walk_stops env 0"
    and "video_detect_dmi_table = pre @ d # post"
    and "rule_action env d = Some t"
    and "\<forall>r\<in>set post. rule_action env r = None"
  shows "(\<forall>r\<in>set video_detect_dmi_table. snd (callback r env) = 0) \<and>
         dmi_check_system env video_detect_dmi_table s = s\<lparr>acpi_backlight_dmi := t\<rparr> \<and>
         (\<not> init_done s \<longrightarrow>
            acpi_backlight_dmi
              (snd (snd (u_acpi_video_get_backlight_type env native ad s))) = t)"
proof -
  have zeros: "\<forall>r\<in>set video_detect_dmi_table. snd (callback r env) = 0"
    by (simp add: table_callbacks_return_0)
  then have "\<forall>r\<in>set (pre @ d # post). snd (callback r env) = 0"
    by (simp only: assms(2))
  from dmi_check_system_last_commit [OF assms(1) this assms(3) assms(4)]
  have walk: "dmi_check_system env video_detect_dmi_table s' = s'\<lparr>acpi_backlight_dmi := t\<rparr>"
    for s'
    by (simp only: assms(2))
  have "acpi_backlight_dmi (init_block env s) = t"
    by (simp add: init_block_dmi walk)
  then show ?thesis
    using zeros by (simp add: walk get_state locked_section_eq)
qed

theorem last_match_wins_witness:
  "rule_action lenovo_platform (video_detect_dmi_table ! 10) = Some acpi_backlight_video \<and>
   rule_action lenovo_platform (video_detect_dmi_table ! 30) = Some acpi_backlight_native \<and>
   dmi_check_system lenovo_platform video_detect_dmi_table init_state =
     init_state\<lparr>acpi_backlight_dmi := acpi_backlight_native\<rparr> \<and>
   acpi_backlight_dmi
     (snd (snd (u_acpi_video_get_backlight_type lenovo_platform False None init_state))) =
     acpi_backlight_native"
proof -
  let ?pre = "take 30 video_detect_dmi_table"
  let ?d = "video_detect_dmi_table ! 30"
  let ?post = "drop 31 video_detect_dmi_table"
  have cont: "\<not> dmi_walk_stops lenovo_platform 0"
    by (simp add: lenovo_platform_def bare_platform_def)
  have split: "video_detect_dmi_table = ?pre @ ?d # ?post"
    by (simp add: video_detect_dmi_table_def)
  have h1: "rule_action lenovo_platform ?d = Some acpi_backlight_native"
    by code_simp
  have h2: "\<forall>r\<in>set ?post. rule_action lenovo_platform r = None"
    by code_simp
  have early: "rule_action lenovo_platform (video_detect_dmi_table ! 10) =
      Some acpi_backlight_video"
    by code_simp
  have fresh: "\<not> init_done init_state"
    by (simp add: init_state_def)
  from last_match_wins [OF cont split h1 h2, of init_state False None]
  show ?thesis
    using h1 early fresh by simp
qed


subsection \<open>Initialisation\<close>

text \<open>
  C7: the one-time block runs in full on the first query and never again. On an
  uninitialised state a query sets \<open>init_done\<close> and leaves in the state what the four
  steps compute on the platform of that call: the parsed command-line token, the result
  of the table walk, the capability bits gathered by the namespace walk, and the answer
  of the EC probe; each step is logged once. On an initialised state a query changes the
  native flag at most, whatever the platform would answer then. Over every non-empty
  sequence of calls from the initial state the four steps are each logged exactly once,
  and the command-line override, the capability bits and the vendor-EC flag are those
  computed on the first call's platform; when all the calls are queries, so is the DMI
  override.
\<close>

theorem init_block_runs_once:
  "(\<not> init_done s \<longrightarrow>
      init_done (snd (snd (u_acpi_video_get_backlight_type env native ad s))) \<and>
      acpi_backlight_cmdline (snd (snd (u_acpi_video_get_backlight_type env native ad s))) =
        acpi_backlight_cmdline (acpi_video_parse_cmdline env s) \<and>
      acpi_backlight_dmi (snd (snd (u_acpi_video_get_backlight_type env native ad s))) =
        acpi_backlight_dmi (dmi_check_system env video_detect_dmi_table s) \<and>
      video_caps (snd (snd (u_acpi_video_get_backlight_type env native ad s))) =
        acpi_walk_namespace (acpi_namespace env) (video_caps s) \<and>
      nvidia_wmi_ec_present (snd (snd (u_acpi_video_get_backlight_type env native ad s))) =
        nvidia_wmi_ec_supported env \<and>
      native_available (snd (snd (u_acpi_video_get_backlight_type env native ad s))) =
        (native_available s \<or> native) \<and>
      calls (snd (snd (u_acpi_video_get_backlight_type env native ad s))) =
        calls s @ [Parse_cmdline, Dmi_check_system, Acpi_walk_namespace, Nvidia_wmi_ec_supported]) \<and>
   (init_done s \<longrightarrow>
      snd (snd (u_acpi_video_get_backlight_type env native ad s)) =
        s\<lparr>native_available := native_available s \<or> native\<rparr>) \<and>
   init_done (run_ops ((env0, x0) # xs) init_state) \<and>
   filter (\<lambda>c. c \<noteq> Unregister_backlight) (calls (run_ops ((env0, x0) # xs) init_state)) =
     [Parse_cmdline, Dmi_check_system, Acpi_walk_namespace, Nvidia_wmi_ec_supported] \<and>
   acpi_backlight_cmdline (run_ops ((env0, x0) # xs) init_state) =
     acpi_backlight_cmdline (acpi_video_parse_cmdline env0 init_state) \<and>
   video_caps (run_ops ((env0, x0) # xs) init_state) =
     acpi_walk_namespace (acpi_namespace env0) 0 \<and>
   nvidia_wmi_ec_present (run_ops ((env0, x0) # xs) init_state) =
     nvidia_wmi_ec_supported env0 \<and>
   (is_query x0 \<and> list_all (\<lambda>p. is_query (snd p)) xs \<longrightarrow>
      acpi_backlight_dmi (run_ops ((env0, x0) # xs) init_state) =
        acpi_backlight_dmi (dmi_check_system env0 video_detect_dmi_table init_state) \<and>
      calls (run_ops ((env0, x0) # xs) init_state) =
        [Parse_cmdline, Dmi_check_system, Acpi_walk_namespace, Nvidia_wmi_ec_supported])"
proof -
  let ?s1 = "run_op env0 x0 init_state"
  let ?sn = "run_ops ((env0, x0) # xs) init_state"
  let ?post = "snd (snd (u_acpi_video_get_backlight_type env native ad s))"
  have fresh: "\<not> init_done init_state" and log: "calls init_state = []"
    and caps: "video_caps init_state = 0"
    by (simp_all add: init_state_def)
  have sn: "?sn = run_ops xs ?s1" by simp
  have d1: "init_done ?s1" by (rule run_op_init_done)
  note later = run_ops_cached [OF d1, of xs]
  have first: "\<not> init_done s \<longrightarrow>
      init_done ?post \<and>
      acpi_backlight_cmdline ?post = acpi_backlight_cmdline (acpi_video_parse_cmdline env s) \<and>
      acpi_backlight_dmi ?post =
        acpi_backlight_dmi (dmi_check_system env video_detect_dmi_table s) \<and>
      video_caps ?post = acpi_walk_namespace (acpi_namespace env) (video_caps s) \<and>
      nvidia_wmi_ec_present ?post = nvidia_wmi_ec_supported env \<and>
      native_available ?post = (native_available s \<or> native) \<and>
      calls ?post =
        calls s @ [Parse_cmdline, Dmi_check_system, Acpi_walk_namespace, Nvidia_wmi_ec_supported]"
    by (simp add: get_state locked_section_eq init_block_fields init_block_dmi)
  have skip: "init_done s \<longrightarrow> ?post = s\<lparr>native_available := native_available s \<or> native\<rparr>"
    by (simp add: get_state locked_section_init_done)
  have done_n: "init_done ?sn"
    using later sn by simp
  have calls_n: "filter (\<lambda>c. c \<noteq> Unregister_backlight) (calls ?sn) =
      [Parse_cmdline, Dmi_check_system, Acpi_walk_namespace, Nvidia_wmi_ec_supported]"
    using later run_op_first(4) [OF fresh, of env0 x0] log sn by simp
  have cmd_n: "acpi_backlight_cmdline ?sn =
      acpi_backlight_cmdline (acpi_video_parse_cmdline env0 init_state)"
    using later run_op_first(1) [OF fresh, of env0 x0] sn by (simp add: init_block_fields)
  have caps_n: "video_caps ?sn = acpi_walk_namespace (acpi_namespace env0) 0"
    using later run_op_first(2) [OF fresh, of env0 x0] sn caps by (simp add: init_block_fields)
  have ec_n: "nvidia_wmi_ec_present ?sn = nvidia_wmi_ec_supported env0"
    using later run_op_first(3) [OF fresh, of env0 x0] sn by (simp add: init_block_fields)
  have queries: "is_query x0 \<and> list_all (\<lambda>p. is_query (snd p)) xs \<longrightarrow>
      acpi_backlight_dmi ?sn =
        acpi_backlight_dmi (dmi_check_system env0 video_detect_dmi_table init_state) \<and>
      calls ?sn =
        [Parse_cmdline, Dmi_check_system, Acpi_walk_namespace, Nvidia_wmi_ec_supported]"
  proof
    assume q: "is_query x0 \<and> list_all (\<lambda>p. is_query (snd p)) xs"
    then obtain n a where x0: "x0 = Query n a" by (cases x0) simp_all
    have s1: "?s1 = (if n then (init_block env0 init_state)\<lparr>native_available := True\<rparr>
                     else init_block env0 init_state)"
      using fresh by (simp add: x0 get_state locked_section_eq)
    from q have "list_all (\<lambda>p. is_query (snd p)) xs" ..
    from run_queries_init_done [OF d1 this]
    have "run_ops xs ?s1 = ?s1\<lparr>native_available := native_available (run_ops xs ?s1)\<rparr>" .
    then have "acpi_backlight_dmi (run_ops xs ?s1) = acpi_backlight_dmi ?s1 \<and>
        calls (run_ops xs ?s1) = calls ?s1"
      using native_update_fields(2,5) by blast
    then show "acpi_backlight_dmi ?sn =
        acpi_backlight_dmi (dmi_check_system env0 video_detect_dmi_table init_state) \<and>
      calls ?sn =
        [Parse_cmdline, Dmi_check_system, Acpi_walk_namespace, Nvidia_wmi_ec_supported]"
      using sn s1 log by (simp add: init_block_fields init_block_dmi)
  qed
  from first skip done_n calls_n cmd_n caps_n ec_n queries show ?thesis
    by blast
qed

theorem init_block_runs_once_witness:
  "\<not> init_done init_state \<and> init_done idle_state \<and>
   snd (snd (u_acpi_video_get_backlight_type dell_platform True None idle_state)) =
     idle_state\<lparr>native_available := True\<rparr> \<and>
   run_ops [(dell_platform, Query False None),
            (bare_platform, Query True (Some False)),
            (win8_platform, Query False None)] init_state =
     \<lparr>acpi_backlight_cmdline = acpi_backlight_vendor,
      acpi_backlight_dmi = acpi_backlight_native,
      nvidia_wmi_ec_present = True,
      native_available = True,
      init_done = True,
      video_caps = 8,
      calls = [Parse_cmdline, Dmi_check_system, Acpi_walk_namespace, Nvidia_wmi_ec_supported]\<rparr>"
proof -
  let ?sn = "run_ops [(dell_platform, Query False None),
            (bare_platform, Query True (Some False)),
            (win8_platform, Query False None)] init_state"
  have c: "acpi_backlight_cmdline (acpi_video_parse_cmdline dell_platform init_state) =
      acpi_backlight_vendor"
    by code_simp
  have d: "acpi_backlight_dmi (dmi_check_system dell_platform video_detect_dmi_table init_state) =
      acpi_backlight_native"
    by code_simp
  have v: "acpi_walk_namespace (acpi_namespace dell_platform) 0 = 8"
    by code_simp
  have e: "nvidia_wmi_ec_supported dell_platform"
    by code_simp
  have f: "\<not> init_done init_state" and i: "init_done idle_state"
    by (simp_all add: init_state_def idle_state_def)
  have n: "native_available ?sn"
    by (simp add: get_state locked_section_fields)
  have q: "is_query (Query False None) \<and>
      list_all (\<lambda>p. is_query (snd p))
        [(bare_platform, Query True (Some False)), (win8_platform, Query False None)]"
    by simp
  from init_block_runs_once [where s = idle_state and env = dell_platform and native = True
        and ad = None and ?env0.0 = dell_platform and ?x0.0 = "Query False None"
        and xs = "[(bare_platform, Query True (Some False)), (win8_platform, Query False None)]"]
  have "snd (snd (u_acpi_video_get_backlight_type dell_platform True None idle_state)) =
          idle_state\<lparr>native_available := native_available idle_state \<or> True\<rparr>"
    and "init_done ?sn"
    and "acpi_backlight_cmdline ?sn = acpi_backlight_vendor"
    and "acpi_backlight_dmi ?sn = acpi_backlight_native"
    and "video_caps ?sn = 8"
    and "nvidia_wmi_ec_present ?sn"
    and "calls ?sn =
          [Parse_cmdline, Dmi_check_system, Acpi_walk_namespace, Nvidia_wmi_ec_supported]"
    using c d v e i q by simp_all
  then show ?thesis
    using f i n by (intro conjI; (rule state.equality)?; simp)
qed

end
